theory Spec2Isabelle
  imports Main
begin

section \<open>JavaScript values and strings\<close>

text \<open>
  The handlers of the shell receive untyped values (\<^verbatim>\<open>req: any\<close>, \<^verbatim>\<open>e: any\<close>, the parsed
  JSON body) and inspect them with \<^verbatim>\<open>typeof\<close> and optional chaining only. A value is one
  of the JavaScript value kinds; the payload of a number is never read by the code.
  Strings are HOL strings: sequences of code units below 256.
\<close>

datatype jsval =
    JUndefined
  | JNull
  | JBool bool
  | JNum int
  | JStr string
  | JArr "jsval list"
  | JObj "(string \<times> jsval) list"

text \<open>\<^verbatim>\<open>v?.k\<close> for the property names the program reads (\<^verbatim>\<open>url\<close>, \<^verbatim>\<open>isTopFrame\<close>,
  \<^verbatim>\<open>message\<close>, \<^verbatim>\<open>requiredVersion\<close>, \<^verbatim>\<open>apkUrl\<close>): none of them exists on a primitive or
  on an array, and a missing property of an object reads as \<^verbatim>\<open>undefined\<close>.\<close>

fun js_get :: "jsval \<Rightarrow> string \<Rightarrow> jsval" where
  "js_get (JObj kvs) k = (case map_of kvs k of None \<Rightarrow> JUndefined | Some v \<Rightarrow> v)"
| "js_get _ k = JUndefined"

text \<open>\<^verbatim>\<open>s.startsWith(p)\<close>\<close>

definition startsWith :: "string \<Rightarrow> string \<Rightarrow> bool" where
  "startsWith s p = (take (length p) s = p)"

text \<open>\<^verbatim>\<open>s.toLowerCase()\<close> on code units below 256: the ASCII capitals and the Latin-1
  capitals (all of 192..222 but the multiplication sign 215) move up by 32.\<close>

definition lower_char :: "char \<Rightarrow> char" where
  "lower_char c =
     (let n = (of_char c :: nat)
      in if (65 \<le> n \<and> n \<le> 90) \<or> (192 \<le> n \<and> n \<le> 222 \<and> n \<noteq> 215)
         then char_of (n + 32) else c)"

definition toLowerCase :: "string \<Rightarrow> string" where
  "toLowerCase s = map lower_char s"

text \<open>\<^verbatim>\<open>s.trim()\<close>: white space and line terminators below 256 are tab, line feed,
  vertical tab, form feed, carriage return, space and no-break space.\<close>

definition is_ws :: "char \<Rightarrow> bool" where
  "is_ws c = ((of_char c :: nat) \<in> {9, 10, 11, 12, 13, 32, 160})"

definition trim :: "string \<Rightarrow> string" where
  "trim s = rev (dropWhile is_ws (rev (dropWhile is_ws s)))"

section \<open>Host classifier and navigation policy\<close>

definition BASE_URL :: string where
  "BASE_URL = ''https://maybe-someone-saw.vercel.app/''"

definition ALLOWED_HOSTS :: "string list" where
  "ALLOWED_HOSTS =
     [''maybe-someone-saw.vercel.app'', ''open.spotify.com'', ''spotify.com'',
      ''accounts.spotify.com'']"

text \<open>
  \<^verbatim>\<open>new URL(url)\<close> belongs to the platform, not to the repository. The program reads two
  components of its result, \<^verbatim>\<open>host\<close> and \<^verbatim>\<open>pathname\<close>, and catches its exception. The
  parser is therefore a parameter \<open>parse\<close> of every function that calls it: \<open>None\<close> is the
  thrown \<^verbatim>\<open>TypeError\<close>.
\<close>

record parsed_url =
  host :: string
  pathname :: string

type_synonym url_parser = "string \<Rightarrow> parsed_url option"

definition baseHost :: "url_parser \<Rightarrow> string" where
  "baseHost parse = (case parse BASE_URL of None \<Rightarrow> [] | Some u \<Rightarrow> host u)"

definition isExternalToBase :: "url_parser \<Rightarrow> string \<Rightarrow> bool" where
  "isExternalToBase parse url =
     (case parse url of
        None \<Rightarrow> False
      | Some u \<Rightarrow>
          if host u \<in> set ALLOWED_HOSTS then False
          else if baseHost parse \<noteq> [] \<and> host u = baseHost parse then False
          else True)"

text \<open>The first test inside \<^verbatim>\<open>if (isTopFrame) { try { ... } catch {} }\<close>: the partner
  host outside its embeddable path. A parse failure is swallowed and the test is skipped.\<close>

definition partner_page :: "url_parser \<Rightarrow> string \<Rightarrow> bool" where
  "partner_page parse url =
     (case parse url of
        None \<Rightarrow> False
      | Some u \<Rightarrow>
          let h = toLowerCase (host u)
          in (h = ''open.spotify.com'' \<or> h = ''spotify.com'')
             \<and> \<not> startsWith (pathname u) ''/embed/'')"

text \<open>
  The navigation-intercept callback. Its result is the boolean handed back to the browser
  surface (\<open>True\<close>: load in place) together with the calls of \<^verbatim>\<open>openExternal\<close> it made, in
  order; each call is one external-dispatch attempt.
\<close>

definition req_url :: "jsval \<Rightarrow> string" where
  "req_url req = (case js_get req ''url'' of JStr s \<Rightarrow> s | _ \<Rightarrow> [])"

definition req_isTopFrame :: "jsval \<Rightarrow> bool" where
  "req_isTopFrame req = (case js_get req ''isTopFrame'' of JBool b \<Rightarrow> b | _ \<Rightarrow> True)"

definition onShouldStartLoadWithRequest :: "url_parser \<Rightarrow> jsval \<Rightarrow> bool \<times> string list" where
  "onShouldStartLoadWithRequest parse req =
     (let url = req_url req
      in if url = [] then (True, [])
         else
           let isTopFrame = req_isTopFrame req
           in if startsWith url ''spotify:'' \<or> startsWith url ''intent:'' then (False, [url])
              else if startsWith url ''mailto:'' \<or> startsWith url ''tel:'' \<or> startsWith url ''sms:''
              then (False, [url])
              else if startsWith url ''http://'' \<or> startsWith url ''https://'' then
                (if isTopFrame \<and> partner_page parse url then (False, [url])
                 else if isTopFrame \<and> isExternalToBase parse url then (False, [url])
                 else (True, []))
              else (True, []))"

text \<open>The navigation-completed listener returns nothing; its result is the list of
  \<^verbatim>\<open>openExternal\<close> calls.\<close>

definition onNavigationStateChange :: "jsval \<Rightarrow> string list" where
  "onNavigationStateChange nav =
     (let url = req_url nav
      in if url = [] then []
         else if startsWith url ''mailto:'' \<or> startsWith url ''tel:'' \<or> startsWith url ''sms:''
         then [url]
         else [])"

section \<open>Update gate\<close>

text \<open>\<^verbatim>\<open>normalizeTag\<close>: the argument is typed \<^verbatim>\<open>string\<close>, so \<^verbatim>\<open>t || ''\<close> is \<^verbatim>\<open>t\<close>.\<close>

definition normalizeTag :: "string \<Rightarrow> string" where
  "normalizeTag t = (let s = trim t in if startsWith s ''v'' then s else ''v'' @ s)"

text \<open>\<^verbatim>\<open>BASE_URL.replace(/\/$/, '')\<close> removes one slash at the very end.\<close>

definition strip_trailing_slash :: "string \<Rightarrow> string" where
  "strip_trailing_slash s = (if s \<noteq> [] \<and> last s = CHR ''/'' then butlast s else s)"

definition CLIENT_UPDATE_URL :: string where
  "CLIENT_UPDATE_URL = strip_trailing_slash BASE_URL @ ''/api/client/update''"

record ClientUpdateInfo =
  requiredVersion :: "string option"
  apkUrl :: "string option"

text \<open>The two build-time values the gate reads from the \<^verbatim>\<open>extra\<close> section of the
  configuration, as the untyped values they are.\<close>

record build_config =
  RELEASE_TAG :: jsval
  MV_CLIENT_SECRET :: jsval

definition clientSecret :: "build_config \<Rightarrow> string" where
  "clientSecret cfg = (case MV_CLIENT_SECRET cfg of JStr s \<Rightarrow> s | _ \<Rightarrow> [])"

definition localReleaseTag :: "build_config \<Rightarrow> string" where
  "localReleaseTag cfg =
     (let t = (case RELEASE_TAG cfg of JStr s \<Rightarrow> s | _ \<Rightarrow> [])
      in if t \<noteq> [] then normalizeTag t else [])"

text \<open>
  The network is the platform's \<^verbatim>\<open>fetch\<close>: a parameter that maps the request to what the
  promise settles with. A rejected promise carries the thrown value; a response carries
  its status and what \<^verbatim>\<open>res.json()\<close> settles with. \<^verbatim>\<open>res.ok\<close> is the status range
  200 to 299.
\<close>

record request =
  rq_url :: string
  rq_headers :: "(string \<times> string) list"

datatype body_outcome = JsonThrows jsval | JsonValue jsval

record response =
  status :: nat
  json :: body_outcome

datatype fetch_outcome = FetchRejects jsval | FetchResolves response

type_synonym fetcher = "request \<Rightarrow> fetch_outcome"

definition res_ok :: "response \<Rightarrow> bool" where
  "res_ok res = (200 \<le> status res \<and> status res \<le> 299)"

text \<open>The decimal numeral a template literal prints for a status code.\<close>

definition digit_char :: "nat \<Rightarrow> char" where
  "digit_char d = char_of (48 + d)"

fun string_of_nat :: "nat \<Rightarrow> string" where
  "string_of_nat n =
     (if n < 10 then [digit_char n] else string_of_nat (n div 10) @ [digit_char (n mod 10)])"

declare string_of_nat.simps [simp del]

text \<open>\<^verbatim>\<open>new Error(msg)\<close>, as far as the handlers look at it.\<close>

definition js_Error :: "string \<Rightarrow> jsval" where
  "js_Error msg = JObj [(''message'', JStr msg)]"

text \<open>
  \<^verbatim>\<open>fetchUpdateInfo\<close>: \<open>Inl\<close> is the value the promise rejects with. The second component
  is the list of requests issued. \<open>update_request\<close> is the request the function builds
  in its first two statements.
\<close>

definition update_request :: "build_config \<Rightarrow> request" where
  "update_request cfg =
     (let headers = [(''accept'', ''application/json'')]
                    @ (if clientSecret cfg \<noteq> [] then [(''x-mv-client'', clientSecret cfg)] else [])
      in \<lparr>rq_url = CLIENT_UPDATE_URL, rq_headers = headers\<rparr>)"

definition fetchUpdateInfo :: "build_config \<Rightarrow> fetcher \<Rightarrow> (jsval + ClientUpdateInfo) \<times> request list" where
  "fetchUpdateInfo cfg fetch =
     (let rq = update_request cfg
      in (case fetch rq of
            FetchRejects e \<Rightarrow> Inl e
          | FetchResolves res \<Rightarrow>
              if \<not> res_ok res
              then Inl (js_Error (''update_check_failed:'' @ string_of_nat (status res)))
              else (case json res of
                      JsonThrows e \<Rightarrow> Inl e
                    | JsonValue data \<Rightarrow>
                        Inr \<lparr>requiredVersion =
                               (case js_get data ''requiredVersion'' of
                                  JStr r \<Rightarrow> Some (normalizeTag r) | _ \<Rightarrow> None),
                             apkUrl =
                               (case js_get data ''apkUrl'' of
                                  JStr a \<Rightarrow> Some a | _ \<Rightarrow> None)\<rparr>),
          [rq]))"

text \<open>
  The state of the component that the render branches and the handlers' control flow read.
  The two display-only values (\<^verbatim>\<open>errorDetail\<close>, a text, and \<^verbatim>\<open>downloadProgress\<close>, a
  fraction) are left out.
\<close>

record shell_state =
  loading :: bool
  refreshing :: bool
  hasError :: bool
  checkingUpdate :: bool
  updateRequired :: bool
  updateInfo :: "ClientUpdateInfo option"
  updateError :: string
  downloadingUpdate :: bool

definition init_state :: shell_state where
  "init_state =
     \<lparr>loading = True, refreshing = False, hasError = False, checkingUpdate = True,
      updateRequired = False, updateInfo = None, updateError = [], downloadingUpdate = False\<rparr>"

text \<open>The message the \<^verbatim>\<open>catch\<close> branch of the update check shows.\<close>

definition check_error_message :: "jsval \<Rightarrow> string" where
  "check_error_message e =
     (case js_get e ''message'' of JStr m \<Rightarrow> m | _ \<Rightarrow> ''update_check_failed'')"

text \<open>
  The update-check effect, from its first statement to the end of its \<^verbatim>\<open>finally\<close>.
  \<open>alive\<close> is the flag the effect's clean-up clears: its value when the continuation of
  the check runs. Every \<^verbatim>\<open>if (!alive) return\<close> leaves the state as it is at that point,
  and the \<^verbatim>\<open>finally\<close> block then returns too. The result is the new state and the
  requests sent.
\<close>

definition update_check :: "build_config \<Rightarrow> fetcher \<Rightarrow> bool \<Rightarrow> shell_state \<Rightarrow> shell_state \<times> request list" where
  "update_check cfg fetch alive s =
     (let s1 = s\<lparr>checkingUpdate := True, updateError := []\<rparr>
      in if localReleaseTag cfg = [] then
           (if \<not> alive then (s1, [])
            else (s1\<lparr>updateRequired := False, checkingUpdate := False\<rparr>, []))
         else
           (case fetchUpdateInfo cfg fetch of
              (Inr info, sent) \<Rightarrow>
                if \<not> alive then (s1, sent)
                else
                  let s2 = s1\<lparr>updateInfo := Some info\<rparr>;
                      required = (case requiredVersion info of
                                    None \<Rightarrow> []
                                  | Some r \<Rightarrow> if r \<noteq> [] then normalizeTag r else [])
                  in if required = []
                     then (s2\<lparr>updateRequired := False, checkingUpdate := False\<rparr>, sent)
                     else (s2\<lparr>updateRequired := (required \<noteq> localReleaseTag cfg),
                               checkingUpdate := False\<rparr>, sent)
            | (Inl e, sent) \<Rightarrow>
                if \<not> alive then (s1, sent)
                else (s1\<lparr>updateRequired := True, updateError := check_error_message e,
                          checkingUpdate := False\<rparr>, sent)))"

text \<open>The states of the gate, read off the two flags as the render does
  (\<^verbatim>\<open>checkingUpdate ? ... : updateRequired ? ... : null\<close>).\<close>

datatype gate = CHECKING | NOT_REQUIRED | REQUIRED

definition gate_of :: "shell_state \<Rightarrow> gate" where
  "gate_of s = (if checkingUpdate s then CHECKING
                else if updateRequired s then REQUIRED else NOT_REQUIRED)"

text \<open>The second ternary of the render:
  \<^verbatim>\<open>hasError ? <error screen> : !checkingUpdate && !updateRequired ? <WebView> : null\<close>.\<close>

definition webview_mounted :: "shell_state \<Rightarrow> bool" where
  "webview_mounted s = (if hasError s then False
                        else if \<not> checkingUpdate s \<and> \<not> updateRequired s then True else False)"

section \<open>Shell surface\<close>

text \<open>The handlers wired to the embedded browser and to the two screens, as state updates.\<close>

definition onLoadStart :: "shell_state \<Rightarrow> shell_state" where
  "onLoadStart s = s\<lparr>loading := True, hasError := False\<rparr>"

definition onLoadEnd :: "shell_state \<Rightarrow> shell_state" where
  "onLoadEnd s = s\<lparr>loading := False, refreshing := False\<rparr>"

text \<open>\<^verbatim>\<open>onError\<close> and \<^verbatim>\<open>onHttpError\<close> set the same flags.\<close>

definition onError :: "shell_state \<Rightarrow> shell_state" where
  "onError s = s\<lparr>hasError := True, loading := False, refreshing := False\<rparr>"

definition onRefresh :: "shell_state \<Rightarrow> shell_state" where
  "onRefresh s = s\<lparr>refreshing := True, hasError := False\<rparr>"

definition refresh_timeout :: "shell_state \<Rightarrow> shell_state" where
  "refresh_timeout s = s\<lparr>refreshing := False\<rparr>"

definition retry :: "shell_state \<Rightarrow> shell_state" where
  "retry s = s\<lparr>hasError := False, loading := True\<rparr>"

text \<open>\<^verbatim>\<open>startUpdate\<close> up to its first \<^verbatim>\<open>await\<close>, and from the settled download to the end
  of its \<^verbatim>\<open>finally\<close> (\<open>None\<close>: nothing was thrown).\<close>

definition startUpdate_begin :: "bool \<Rightarrow> shell_state \<Rightarrow> shell_state" where
  "startUpdate_begin android s =
     (if \<not> android then s
      else if (case updateInfo s of
                 None \<Rightarrow> True
               | Some info \<Rightarrow> (case apkUrl info of None \<Rightarrow> True | Some a \<Rightarrow> a = []))
           then s\<lparr>updateError := ''missing_apk_url''\<rparr>
           else s\<lparr>downloadingUpdate := True, updateError := []\<rparr>)"

definition startUpdate_end :: "jsval option \<Rightarrow> shell_state \<Rightarrow> shell_state" where
  "startUpdate_end thrown s =
     (case thrown of
        None \<Rightarrow> s
      | Some e \<Rightarrow>
          s\<lparr>updateError := (case js_get e ''message'' of
                                JStr m \<Rightarrow> m | _ \<Rightarrow> ''update_download_failed'')\<rparr>)
     \<lparr>downloadingUpdate := False\<rparr>"

text \<open>
  The states the shell can be in. The update check starts on mount and settles while the
  checking screen is shown; the browser raises its events only while it is mounted; each
  button exists only on the screen that shows it.
\<close>

inductive reachable :: "build_config \<Rightarrow> shell_state \<Rightarrow> bool" for cfg :: build_config where
  r_init: "reachable cfg init_state"
| r_check: "reachable cfg s \<Longrightarrow> checkingUpdate s \<Longrightarrow>
            reachable cfg (fst (update_check cfg fetch alive s))"
| r_load_start: "reachable cfg s \<Longrightarrow> webview_mounted s \<Longrightarrow> reachable cfg (onLoadStart s)"
| r_load_end: "reachable cfg s \<Longrightarrow> webview_mounted s \<Longrightarrow> reachable cfg (onLoadEnd s)"
| r_error: "reachable cfg s \<Longrightarrow> webview_mounted s \<Longrightarrow> reachable cfg (onError s)"
| r_refresh: "reachable cfg s \<Longrightarrow> webview_mounted s \<Longrightarrow> reachable cfg (onRefresh s)"
| r_refresh_timeout: "reachable cfg s \<Longrightarrow> reachable cfg (refresh_timeout s)"
| r_retry: "reachable cfg s \<Longrightarrow> hasError s \<Longrightarrow> reachable cfg (retry s)"
| r_update_begin: "reachable cfg s \<Longrightarrow> gate_of s = REQUIRED \<Longrightarrow> \<not> downloadingUpdate s \<Longrightarrow>
                   reachable cfg (startUpdate_begin android s)"
| r_update_end: "reachable cfg s \<Longrightarrow> downloadingUpdate s \<Longrightarrow>
                 reachable cfg (startUpdate_end thrown s)"

section \<open>Example URLs\<close>

text \<open>
  A finite excerpt of the platform parser: the host and path that URL parsing gives for the
  addresses used in the examples below. Every other string, among them \<^verbatim>\<open>intent://a b\<close>
  (a space is not allowed in a host) and \<^verbatim>\<open>not a url\<close> (no scheme), has no entry.
\<close>

definition example_parse :: url_parser where
  "example_parse = map_of
     [(''https://maybe-someone-saw.vercel.app/'',
         \<lparr>host = ''maybe-someone-saw.vercel.app'', pathname = ''/''\<rparr>),
      (''https://open.spotify.com/track/123'',
         \<lparr>host = ''open.spotify.com'', pathname = ''/track/123''\<rparr>),
      (''https://open.spotify.com/embed/track/123'',
         \<lparr>host = ''open.spotify.com'', pathname = ''/embed/track/123''\<rparr>),
      (''https://example.com/'',
         \<lparr>host = ''example.com'', pathname = ''/''\<rparr>)]"


section \<open>Facts about strings and tags\<close>

lemma startsWith_hd: "startsWith s (c # p) \<Longrightarrow> s \<noteq> [] \<and> hd s = c"
  by (cases s) (auto simp: startsWith_def)

lemma dropWhile_fix: "xs = [] \<or> \<not> P (hd xs) \<Longrightarrow> dropWhile P xs = xs"
  by (cases xs) auto

lemma last_dropWhile: "dropWhile P xs \<noteq> [] \<Longrightarrow> last (dropWhile P xs) = last xs"
  by (induction xs) (auto split: if_splits)

lemma trim_hd: "trim s \<noteq> [] \<Longrightarrow> \<not> is_ws (hd (trim s))"
proof -
  assume ne: "trim s \<noteq> []"
  let ?a = "dropWhile is_ws s"
  let ?b = "dropWhile is_ws (rev ?a)"
  from ne have b: "?b \<noteq> []" by (simp add: trim_def)
  have a: "?a \<noteq> []"
  proof
    assume "?a = []"
    then have "?b = []" by (simp only: rev.simps dropWhile.simps)
    with b show False by contradiction
  qed
  have "hd (trim s) = last ?b" using b by (simp add: trim_def hd_rev)
  also have "\<dots> = last (rev ?a)" using b by (rule last_dropWhile)
  also have "\<dots> = hd ?a" using a by (simp add: last_rev)
  finally show ?thesis using a hd_dropWhile [of is_ws s] by simp
qed

lemma trim_last: "trim s \<noteq> [] \<Longrightarrow> \<not> is_ws (last (trim s))"
proof -
  assume ne: "trim s \<noteq> []"
  let ?b = "dropWhile is_ws (rev (dropWhile is_ws s))"
  from ne have b: "?b \<noteq> []" by (simp add: trim_def)
  have "last (trim s) = hd ?b" using b by (simp add: trim_def last_rev)
  then show ?thesis using b hd_dropWhile [of is_ws "rev (dropWhile is_ws s)"] by simp
qed

lemma trim_fix:
  assumes "x = [] \<or> (\<not> is_ws (hd x) \<and> \<not> is_ws (last x))"
  shows "trim x = x"
proof (cases "x = []")
  case True
  then show ?thesis by (simp add: trim_def)
next
  case False
  with assms have h: "\<not> is_ws (hd x)" and l: "\<not> is_ws (last x)" by auto
  have 1: "dropWhile is_ws x = x" using h by (intro dropWhile_fix) simp
  have "hd (rev x) = last x" using False by (simp add: hd_rev)
  then have 2: "dropWhile is_ws (rev x) = rev x" using l by (intro dropWhile_fix) simp
  show ?thesis by (simp add: trim_def 1 2)
qed

lemma not_ws_v: "\<not> is_ws CHR ''v''"
  by (simp add: is_ws_def)

lemma normalizeTag_v: "startsWith (normalizeTag t) ''v''"
  by (simp add: normalizeTag_def Let_def startsWith_def)

lemma normalizeTag_nonempty: "normalizeTag t \<noteq> []"
  using normalizeTag_v [of t] by (auto simp: startsWith_def)

lemma normalizeTag_trimmed: "trim (normalizeTag t) = normalizeTag t"
proof (cases "startsWith (trim t) ''v''")
  case True
  then have ne: "trim t \<noteq> []" by (auto simp: startsWith_def)
  have "trim (trim t) = trim t"
    using trim_hd [OF ne] trim_last [OF ne] by (intro trim_fix) simp
  with True show ?thesis by (simp add: normalizeTag_def)
next
  case False
  have "trim (''v'' @ trim t) = ''v'' @ trim t"
  proof (cases "trim t = []")
    case True
    then show ?thesis by (simp add: trim_fix not_ws_v)
  next
    case ne: False
    show ?thesis using trim_last [OF ne] ne by (intro trim_fix) (simp add: not_ws_v)
  qed
  with False show ?thesis by (simp add: normalizeTag_def)
qed

lemma normalizeTag_idem: "normalizeTag (normalizeTag t) = normalizeTag t"
proof -
  have "normalizeTag (normalizeTag t) =
        (if startsWith (normalizeTag t) ''v'' then normalizeTag t else ''v'' @ normalizeTag t)"
    unfolding normalizeTag_def [of "normalizeTag t"] Let_def normalizeTag_trimmed ..
  then show ?thesis by (simp add: normalizeTag_v)
qed

lemma string_of_nat_nonempty: "string_of_nat n \<noteq> []"
  by (subst string_of_nat.simps) simp

section \<open>Facts about the update check\<close>

lemma localReleaseTag_present:
  "RELEASE_TAG cfg = JStr t \<Longrightarrow> t \<noteq> [] \<Longrightarrow> localReleaseTag cfg = normalizeTag t"
  by (simp add: localReleaseTag_def)

lemma fetchUpdateInfo_rejects:
  "fetch (update_request cfg) = FetchRejects e \<Longrightarrow>
   fetchUpdateInfo cfg fetch = (Inl e, [update_request cfg])"
  by (simp add: fetchUpdateInfo_def)

lemma fetchUpdateInfo_not_ok:
  "fetch (update_request cfg) = FetchResolves res \<Longrightarrow> \<not> res_ok res \<Longrightarrow>
   fetchUpdateInfo cfg fetch =
     (Inl (js_Error (''update_check_failed:'' @ string_of_nat (status res))), [update_request cfg])"
  by (simp add: fetchUpdateInfo_def)

lemma fetchUpdateInfo_bad_body:
  "fetch (update_request cfg) = FetchResolves res \<Longrightarrow> res_ok res \<Longrightarrow> json res = JsonThrows e \<Longrightarrow>
   fetchUpdateInfo cfg fetch = (Inl e, [update_request cfg])"
  by (simp add: fetchUpdateInfo_def)

lemma fetchUpdateInfo_ok:
  "fetch (update_request cfg) = FetchResolves res \<Longrightarrow> res_ok res \<Longrightarrow> json res = JsonValue data \<Longrightarrow>
   fetchUpdateInfo cfg fetch =
     (Inr \<lparr>requiredVersion = (case js_get data ''requiredVersion'' of
                                 JStr r \<Rightarrow> Some (normalizeTag r) | _ \<Rightarrow> None),
           apkUrl = (case js_get data ''apkUrl'' of JStr a \<Rightarrow> Some a | _ \<Rightarrow> None)\<rparr>,
      [update_request cfg])"
  by (simp add: fetchUpdateInfo_def)

lemma update_check_thrown:
  "localReleaseTag cfg \<noteq> [] \<Longrightarrow> alive \<Longrightarrow> fetchUpdateInfo cfg fetch = (Inl e, sent) \<Longrightarrow>
   update_check cfg fetch alive s =
     (s\<lparr>checkingUpdate := False, updateError := check_error_message e, updateRequired := True\<rparr>, sent)"
  by (simp add: update_check_def)

lemma update_check_info:
  "localReleaseTag cfg \<noteq> [] \<Longrightarrow> alive \<Longrightarrow> fetchUpdateInfo cfg fetch = (Inr info, sent) \<Longrightarrow>
   update_check cfg fetch alive s =
     (s\<lparr>checkingUpdate := False, updateError := [], updateInfo := Some info,
        updateRequired :=
          (case requiredVersion info of
             None \<Rightarrow> False
           | Some r \<Rightarrow> r \<noteq> [] \<and> normalizeTag r \<noteq> localReleaseTag cfg)\<rparr>, sent)"
  by (auto simp: update_check_def Let_def normalizeTag_nonempty split: option.splits)

lemma check_error_message_Error: "check_error_message (js_Error m) = m"
  by (simp add: check_error_message_def js_Error_def)

lemma update_check_hasError: "hasError (fst (update_check cfg fetch alive s)) = hasError s"
  by (auto simp: update_check_def Let_def split: prod.splits sum.splits option.splits)

lemma error_screen_gate: "reachable cfg s \<Longrightarrow> hasError s \<Longrightarrow> gate_of s = NOT_REQUIRED"
proof (induction rule: reachable.induct)
  case r_init
  then show ?case by (simp add: init_state_def)
next
  case (r_check s fetch alive)
  then show ?case by (auto simp: update_check_hasError gate_of_def split: if_splits)
next
  case (r_error s)
  then show ?case by (auto simp: onError_def webview_mounted_def gate_of_def split: if_splits)
next
  case (r_update_begin s android)
  then show ?case by (auto simp: startUpdate_begin_def gate_of_def split: if_splits)
next
  case (r_update_end s thrown)
  then show ?case by (auto simp: startUpdate_end_def gate_of_def split: if_splits option.splits)
qed (auto simp: onLoadStart_def onLoadEnd_def onRefresh_def refresh_timeout_def retry_def
      gate_of_def split: if_splits)

section \<open>Facts about the navigation policy\<close>

lemma req_url_eq: "js_get req ''url'' = JStr url \<Longrightarrow> req_url req = url"
  by (simp add: req_url_def)

lemma web_url_schemes:
  assumes "startsWith url ''http://'' \<or> startsWith url ''https://''"
  shows "url \<noteq> []" and "\<not> startsWith url ''spotify:''" and "\<not> startsWith url ''intent:''"
    and "\<not> startsWith url ''mailto:''" and "\<not> startsWith url ''tel:''"
    and "\<not> startsWith url ''sms:''"
  using assms by (auto dest!: startsWith_hd)


section \<open>The update gate\<close>

subsection \<open>A response without a required version\<close>

text \<open>
  When the local tag is present and the response is a success whose body has no
  \<^verbatim>\<open>requiredVersion\<close> string (the field is missing, \<^verbatim>\<open>null\<close>, or not a string), the gate
  resolves \<open>NOT_REQUIRED\<close>.
\<close>

lemma absent_required_version_not_required:
  assumes "localReleaseTag cfg \<noteq> []" and "alive"
    and "fetch (update_request cfg) = FetchResolves res" and "res_ok res"
    and "json res = JsonValue data"
    and "\<forall>r. js_get data ''requiredVersion'' \<noteq> JStr r"
  shows "gate_of (fst (update_check cfg fetch alive s)) = NOT_REQUIRED"
proof -
  have rv: "(case js_get data ''requiredVersion'' of
               JStr r \<Rightarrow> Some (normalizeTag r) | _ \<Rightarrow> None) = None"
    using assms(6) by (cases "js_get data ''requiredVersion''") simp_all
  have f: "fetchUpdateInfo cfg fetch =
     (Inr \<lparr>requiredVersion = None,
           apkUrl = (case js_get data ''apkUrl'' of JStr a \<Rightarrow> Some a | _ \<Rightarrow> None)\<rparr>,
      [update_request cfg])"
    using fetchUpdateInfo_ok [of fetch cfg res data] assms(3,4,5) rv by simp
  show ?thesis
    unfolding update_check_info [OF assms(1,2) f] by (simp add: gate_of_def)
qed

text \<open>
  C1. The claim: a success response whose required-version field is absent or the empty
  string resolves the gate to \<open>NOT_REQUIRED\<close>, for every present local tag. For the empty
  string the code does otherwise. With local tag \<^verbatim>\<open>v1.2.0\<close> and the body
  \<^verbatim>\<open>{"requiredVersion": ""}\<close> under status 200, \<^verbatim>\<open>fetchUpdateInfo\<close> has already turned the
  empty string into \<^verbatim>\<open>v\<close>, so the emptiness test of the effect does not fire, \<^verbatim>\<open>v\<close> differs
  from \<^verbatim>\<open>v1.2.0\<close>, and the gate resolves \<open>REQUIRED\<close> with the stored required tag \<^verbatim>\<open>v\<close>.
\<close>

theorem empty_required_version_blocks:
  "gate_of (fst (update_check
      \<lparr>RELEASE_TAG = JStr ''v1.2.0'', MV_CLIENT_SECRET = JUndefined\<rparr>
      (\<lambda>rq. FetchResolves \<lparr>status = 200, json = JsonValue (JObj [(''requiredVersion'', JStr [])])\<rparr>)
      True init_state)) = REQUIRED
   \<and> map_option requiredVersion (updateInfo (fst (update_check
      \<lparr>RELEASE_TAG = JStr ''v1.2.0'', MV_CLIENT_SECRET = JUndefined\<rparr>
      (\<lambda>rq. FetchResolves \<lparr>status = 200, json = JsonValue (JObj [(''requiredVersion'', JStr [])])\<rparr>)
      True init_state))) = Some (Some ''v'')"
  by code_simp

subsection \<open>Comparison of the two tags\<close>

text \<open>
  C6. For a present local tag (\<^verbatim>\<open>RELEASE_TAG\<close> is a non-empty string \<open>t\<close>) and a success
  response that carries a non-empty required-version string \<open>r\<close>, while the component is
  mounted: the local tag is \<open>normalizeTag t\<close>, both normalised tags begin with \<^verbatim>\<open>v\<close>, the
  gate resolves \<open>NOT_REQUIRED\<close> exactly when \<open>normalizeTag r = normalizeTag t\<close> and
  \<open>REQUIRED\<close> otherwise, and the stored required tag is \<open>normalizeTag r\<close>.
\<close>

theorem version_comparison:
  assumes "RELEASE_TAG cfg = JStr t" and "t \<noteq> []" and "alive"
    and "fetch (update_request cfg) = FetchResolves res" and "res_ok res"
    and "json res = JsonValue data"
    and "js_get data ''requiredVersion'' = JStr r" and "r \<noteq> []"
  shows "localReleaseTag cfg = normalizeTag t
       \<and> startsWith (normalizeTag t) ''v'' \<and> startsWith (normalizeTag r) ''v''
       \<and> gate_of (fst (update_check cfg fetch alive s)) =
           (if normalizeTag r = normalizeTag t then NOT_REQUIRED else REQUIRED)
       \<and> map_option requiredVersion (updateInfo (fst (update_check cfg fetch alive s)))
           = Some (Some (normalizeTag r))"
proof -
  have lt: "localReleaseTag cfg = normalizeTag t"
    using assms(1,2) by (rule localReleaseTag_present)
  then have present: "localReleaseTag cfg \<noteq> []" by (simp add: normalizeTag_nonempty)
  have f: "fetchUpdateInfo cfg fetch =
     (Inr \<lparr>requiredVersion = Some (normalizeTag r),
           apkUrl = (case js_get data ''apkUrl'' of JStr a \<Rightarrow> Some a | _ \<Rightarrow> None)\<rparr>,
      [update_request cfg])"
    using fetchUpdateInfo_ok [of fetch cfg res data] assms(4,5,6,7) by simp
  show ?thesis
    unfolding update_check_info [OF present assms(3) f]
    by (simp add: lt gate_of_def normalizeTag_v normalizeTag_idem normalizeTag_nonempty)
qed

text \<open>
  The two scenarios of C6: local tag \<^verbatim>\<open>v1.2.0\<close> against the server values \<^verbatim>\<open>1.2.0\<close>
  (\<open>NOT_REQUIRED\<close>) and \<^verbatim>\<open>1.3.0\<close> (\<open>REQUIRED\<close>, required tag \<^verbatim>\<open>v1.3.0\<close>).
\<close>

theorem version_comparison_witness:
  "gate_of (fst (update_check \<lparr>RELEASE_TAG = JStr ''v1.2.0'', MV_CLIENT_SECRET = JUndefined\<rparr>
      (\<lambda>rq. FetchResolves \<lparr>status = 200,
                json = JsonValue (JObj [(''requiredVersion'', JStr ''1.2.0'')])\<rparr>)
      True init_state)) = NOT_REQUIRED
   \<and> gate_of (fst (update_check \<lparr>RELEASE_TAG = JStr ''v1.2.0'', MV_CLIENT_SECRET = JUndefined\<rparr>
      (\<lambda>rq. FetchResolves \<lparr>status = 200,
                json = JsonValue (JObj [(''requiredVersion'', JStr ''1.3.0'')])\<rparr>)
      True init_state)) = REQUIRED
   \<and> map_option requiredVersion (updateInfo (fst (update_check
      \<lparr>RELEASE_TAG = JStr ''v1.2.0'', MV_CLIENT_SECRET = JUndefined\<rparr>
      (\<lambda>rq. FetchResolves \<lparr>status = 200,
                json = JsonValue (JObj [(''requiredVersion'', JStr ''1.3.0'')])\<rparr>)
      True init_state))) = Some (Some ''v1.3.0'')"
proof -
  let ?cfg = "\<lparr>RELEASE_TAG = JStr ''v1.2.0'', MV_CLIENT_SECRET = JUndefined\<rparr>"
  let ?res = "\<lambda>r. \<lparr>status = 200, json = JsonValue (JObj [(''requiredVersion'', JStr r)])\<rparr>"
  have n: "normalizeTag ''v1.2.0'' = ''v1.2.0''" "normalizeTag ''1.2.0'' = ''v1.2.0''"
    "normalizeTag ''1.3.0'' = ''v1.3.0''"
    by code_simp+
  have ok: "res_ok (?res r)" for r by (simp add: res_ok_def)
  have a: "gate_of (fst (update_check ?cfg (\<lambda>rq. FetchResolves (?res ''1.2.0'')) True init_state))
             = NOT_REQUIRED"
    using version_comparison [where cfg = ?cfg and t = "''v1.2.0''" and alive = True
        and fetch = "\<lambda>rq. FetchResolves (?res ''1.2.0'')" and res = "?res ''1.2.0''"
        and data = "JObj [(''requiredVersion'', JStr ''1.2.0'')]" and r = "''1.2.0''"
        and s = init_state] ok n
    by simp
  have b: "gate_of (fst (update_check ?cfg (\<lambda>rq. FetchResolves (?res ''1.3.0'')) True init_state))
             = REQUIRED
         \<and> map_option requiredVersion (updateInfo (fst (update_check ?cfg
              (\<lambda>rq. FetchResolves (?res ''1.3.0'')) True init_state))) = Some (Some ''v1.3.0'')"
    using version_comparison [where cfg = ?cfg and t = "''v1.2.0''" and alive = True
        and fetch = "\<lambda>rq. FetchResolves (?res ''1.3.0'')" and res = "?res ''1.3.0''"
        and data = "JObj [(''requiredVersion'', JStr ''1.3.0'')]" and r = "''1.3.0''"
        and s = init_state] ok n
    by simp
  from a b show ?thesis by simp
qed

subsection \<open>No local tag\<close>

text \<open>
  C7. When the local tag is absent (empty), the check started from the initial state, which
  is \<open>CHECKING\<close>, ends in \<open>NOT_REQUIRED\<close> and sends no request.
\<close>

theorem absent_tag_skips_check:
  assumes "localReleaseTag cfg = []" and "alive"
  shows "gate_of init_state = CHECKING
       \<and> gate_of (fst (update_check cfg fetch alive init_state)) = NOT_REQUIRED
       \<and> snd (update_check cfg fetch alive init_state) = []"
  using assms by (simp add: update_check_def gate_of_def init_state_def)

text \<open>
  C7 at a build without \<^verbatim>\<open>RELEASE_TAG\<close>.
\<close>

theorem absent_tag_skips_check_witness:
  "localReleaseTag \<lparr>RELEASE_TAG = JUndefined, MV_CLIENT_SECRET = JUndefined\<rparr> = []
   \<and> gate_of (fst (update_check \<lparr>RELEASE_TAG = JUndefined, MV_CLIENT_SECRET = JUndefined\<rparr>
        (\<lambda>rq. FetchRejects JUndefined) True init_state)) = NOT_REQUIRED
   \<and> snd (update_check \<lparr>RELEASE_TAG = JUndefined, MV_CLIENT_SECRET = JUndefined\<rparr>
        (\<lambda>rq. FetchRejects JUndefined) True init_state) = []"
proof -
  have h: "localReleaseTag \<lparr>RELEASE_TAG = JUndefined, MV_CLIENT_SECRET = JUndefined\<rparr> = []"
    by (simp add: localReleaseTag_def)
  from absent_tag_skips_check [OF h, of True "\<lambda>rq. FetchRejects JUndefined"] h show ?thesis by simp
qed

subsection \<open>A failed check\<close>

text \<open>
  C3, as the code has it. For a present local tag, while the component is mounted:
  a response outside 200..299 resolves the gate to \<open>REQUIRED\<close> with the diagnostic
  \<^verbatim>\<open>update_check_failed:\<close> followed by the decimal status code, which is not empty; a
  rejected request and a body that fails to parse resolve it to \<open>REQUIRED\<close> with the
  diagnostic \<open>check_error_message e\<close> of the thrown value \<open>e\<close>: its \<^verbatim>\<open>message\<close> when that
  is a string, \<^verbatim>\<open>update_check_failed\<close> otherwise. That diagnostic is not empty unless the
  message is the empty string. The gate is never \<open>NOT_REQUIRED\<close> after a failed check.
\<close>

theorem failed_check_requires_update:
  assumes "localReleaseTag cfg \<noteq> []" and "alive"
  shows "(\<forall>res. fetch (update_request cfg) = FetchResolves res \<and> \<not> res_ok res \<longrightarrow>
            gate_of (fst (update_check cfg fetch alive s)) = REQUIRED
          \<and> updateError (fst (update_check cfg fetch alive s))
              = ''update_check_failed:'' @ string_of_nat (status res)
          \<and> updateError (fst (update_check cfg fetch alive s)) \<noteq> [])
       \<and> (\<forall>e. fetch (update_request cfg) = FetchRejects e
                \<or> (\<exists>res. fetch (update_request cfg) = FetchResolves res \<and> res_ok res
                          \<and> json res = JsonThrows e) \<longrightarrow>
            gate_of (fst (update_check cfg fetch alive s)) = REQUIRED
          \<and> updateError (fst (update_check cfg fetch alive s)) = check_error_message e
          \<and> (js_get e ''message'' \<noteq> JStr [] \<longrightarrow>
               updateError (fst (update_check cfg fetch alive s)) \<noteq> []))"
proof (intro conjI allI impI)
  fix res
  assume a: "fetch (update_request cfg) = FetchResolves res \<and> \<not> res_ok res"
  then have f: "fetchUpdateInfo cfg fetch =
     (Inl (js_Error (''update_check_failed:'' @ string_of_nat (status res))), [update_request cfg])"
    by (simp add: fetchUpdateInfo_not_ok)
  show "gate_of (fst (update_check cfg fetch alive s)) = REQUIRED"
    unfolding update_check_thrown [OF assms f] by (simp add: gate_of_def)
  show "updateError (fst (update_check cfg fetch alive s))
          = ''update_check_failed:'' @ string_of_nat (status res)"
    unfolding update_check_thrown [OF assms f] by (simp add: check_error_message_Error)
  then show "updateError (fst (update_check cfg fetch alive s)) \<noteq> []" by simp
next
  fix e
  assume a: "fetch (update_request cfg) = FetchRejects e
              \<or> (\<exists>res. fetch (update_request cfg) = FetchResolves res \<and> res_ok res
                        \<and> json res = JsonThrows e)"
  then have f: "fetchUpdateInfo cfg fetch = (Inl e, [update_request cfg])"
    by (auto simp: fetchUpdateInfo_rejects fetchUpdateInfo_bad_body)
  show "gate_of (fst (update_check cfg fetch alive s)) = REQUIRED"
    unfolding update_check_thrown [OF assms f] by (simp add: gate_of_def)
  show m: "updateError (fst (update_check cfg fetch alive s)) = check_error_message e"
    unfolding update_check_thrown [OF assms f] by simp
  assume "js_get e ''message'' \<noteq> JStr []"
  then have "check_error_message e \<noteq> []"
    by (cases "js_get e ''message''") (simp_all add: check_error_message_def)
  with m show "updateError (fst (update_check cfg fetch alive s)) \<noteq> []" by simp
qed

text \<open>
  C3 at status 500 and at a rejected request.
\<close>

theorem failed_check_requires_update_witness:
  "localReleaseTag \<lparr>RELEASE_TAG = JStr ''v1.2.0'', MV_CLIENT_SECRET = JUndefined\<rparr> \<noteq> []
   \<and> \<not> res_ok \<lparr>status = 500, json = JsonThrows JUndefined\<rparr>
   \<and> gate_of (fst (update_check \<lparr>RELEASE_TAG = JStr ''v1.2.0'', MV_CLIENT_SECRET = JUndefined\<rparr>
        (\<lambda>rq. FetchResolves \<lparr>status = 500, json = JsonThrows JUndefined\<rparr>) True init_state))
       = REQUIRED
   \<and> updateError (fst (update_check \<lparr>RELEASE_TAG = JStr ''v1.2.0'', MV_CLIENT_SECRET = JUndefined\<rparr>
        (\<lambda>rq. FetchResolves \<lparr>status = 500, json = JsonThrows JUndefined\<rparr>) True init_state))
       = ''update_check_failed:500''
   \<and> gate_of (fst (update_check \<lparr>RELEASE_TAG = JStr ''v1.2.0'', MV_CLIENT_SECRET = JUndefined\<rparr>
        (\<lambda>rq. FetchRejects (js_Error ''Network request failed'')) True init_state))
       = REQUIRED
   \<and> updateError (fst (update_check \<lparr>RELEASE_TAG = JStr ''v1.2.0'', MV_CLIENT_SECRET = JUndefined\<rparr>
        (\<lambda>rq. FetchRejects (js_Error ''Network request failed'')) True init_state))
       = ''Network request failed''"
proof -
  let ?cfg = "\<lparr>RELEASE_TAG = JStr ''v1.2.0'', MV_CLIENT_SECRET = JUndefined\<rparr>"
  let ?res = "\<lparr>status = 500, json = JsonThrows JUndefined\<rparr>"
  have p: "localReleaseTag ?cfg \<noteq> []"
    by (simp add: localReleaseTag_def normalizeTag_nonempty)
  have nok: "\<not> res_ok ?res" by (simp add: res_ok_def)
  have d: "string_of_nat 500 = ''500''" by code_simp
  have a: "gate_of (fst (update_check ?cfg (\<lambda>rq. FetchResolves ?res) True init_state)) = REQUIRED
         \<and> updateError (fst (update_check ?cfg (\<lambda>rq. FetchResolves ?res) True init_state))
             = ''update_check_failed:500''"
    using failed_check_requires_update [OF p, of True "\<lambda>rq. FetchResolves ?res" init_state] nok d by simp
  have b: "gate_of (fst (update_check ?cfg
              (\<lambda>rq. FetchRejects (js_Error ''Network request failed'')) True init_state)) = REQUIRED
         \<and> updateError (fst (update_check ?cfg
              (\<lambda>rq. FetchRejects (js_Error ''Network request failed'')) True init_state))
             = ''Network request failed''"
    using failed_check_requires_update [OF p, of True "\<lambda>rq. FetchRejects (js_Error ''Network request failed'')" init_state]
    by (simp add: check_error_message_Error)
  from p nok a b show ?thesis by simp
qed

text \<open>
  C3 as stated asks for a non-empty diagnostic after every failure. A rejection with an
  error whose message is the empty string (\<^verbatim>\<open>new TypeError()\<close> has such a message) leaves
  the gate \<open>REQUIRED\<close> with an empty diagnostic.
\<close>

theorem failed_check_empty_diagnostic:
  "gate_of (fst (update_check
      \<lparr>RELEASE_TAG = JStr ''v1.2.0'', MV_CLIENT_SECRET = JUndefined\<rparr>
      (\<lambda>rq. FetchRejects (JObj [(''message'', JStr [])])) True init_state)) = REQUIRED
   \<and> updateError (fst (update_check
      \<lparr>RELEASE_TAG = JStr ''v1.2.0'', MV_CLIENT_SECRET = JUndefined\<rparr>
      (\<lambda>rq. FetchRejects (JObj [(''message'', JStr [])])) True init_state)) = []"
  by code_simp

subsection \<open>Running the check again\<close>

text \<open>
  C9. Running the update check on the state it produced, against the same configuration
  and the same responses, gives that state again and sends the same requests: the verdict,
  the stored update information and the diagnostic are the same both times.
\<close>

theorem update_check_idempotent:
  "update_check cfg fetch alive (fst (update_check cfg fetch alive s))
     = update_check cfg fetch alive s"
  by (auto simp: update_check_def Let_def split: prod.splits sum.splits option.splits)

subsection \<open>Mounting the embedded browser\<close>

text \<open>
  C2, as the code has it. In every reachable state the embedded browser is mounted if and
  only if the gate is \<open>NOT_REQUIRED\<close> and no load error is shown (\<open>hasError\<close> is false);
  the load-error screen occurs only while the gate is \<open>NOT_REQUIRED\<close>.
\<close>

theorem webview_mounted_iff:
  assumes "reachable cfg s"
  shows "(webview_mounted s \<longleftrightarrow> (gate_of s = NOT_REQUIRED \<and> \<not> hasError s))
       \<and> (hasError s \<longrightarrow> gate_of s = NOT_REQUIRED)"
  using error_screen_gate [OF assms]
  by (auto simp: webview_mounted_def gate_of_def split: if_splits)

text \<open>
  C2 at the state reached when a build without a local tag has finished its check.
\<close>

theorem webview_mounted_iff_witness:
  "reachable \<lparr>RELEASE_TAG = JUndefined, MV_CLIENT_SECRET = JUndefined\<rparr>
     (fst (update_check \<lparr>RELEASE_TAG = JUndefined, MV_CLIENT_SECRET = JUndefined\<rparr>
        (\<lambda>rq. FetchRejects JUndefined) True init_state))
   \<and> (webview_mounted
        (fst (update_check \<lparr>RELEASE_TAG = JUndefined, MV_CLIENT_SECRET = JUndefined\<rparr>
           (\<lambda>rq. FetchRejects JUndefined) True init_state))
      \<longleftrightarrow> gate_of
        (fst (update_check \<lparr>RELEASE_TAG = JUndefined, MV_CLIENT_SECRET = JUndefined\<rparr>
           (\<lambda>rq. FetchRejects JUndefined) True init_state)) = NOT_REQUIRED
        \<and> \<not> hasError
        (fst (update_check \<lparr>RELEASE_TAG = JUndefined, MV_CLIENT_SECRET = JUndefined\<rparr>
           (\<lambda>rq. FetchRejects JUndefined) True init_state)))"
proof -
  let ?cfg = "\<lparr>RELEASE_TAG = JUndefined, MV_CLIENT_SECRET = JUndefined\<rparr>"
  have r: "reachable ?cfg (fst (update_check ?cfg (\<lambda>rq. FetchRejects JUndefined) True init_state))"
    by (rule r_check [OF r_init]) (simp add: init_state_def)
  from r webview_mounted_iff [OF r, THEN conjunct1] show ?thesis by blast
qed

text \<open>
  C2 as stated asks for the browser to be mounted in every \<open>NOT_REQUIRED\<close> state. After
  the check has resolved \<open>NOT_REQUIRED\<close> and the browser has reported a load error, the
  state is reachable, the gate is \<open>NOT_REQUIRED\<close>, and the error screen stands in place of
  the browser.
\<close>

theorem webview_unmounted_on_load_error:
  "reachable \<lparr>RELEASE_TAG = JUndefined, MV_CLIENT_SECRET = JUndefined\<rparr>
     (onError (fst (update_check \<lparr>RELEASE_TAG = JUndefined, MV_CLIENT_SECRET = JUndefined\<rparr>
                      (\<lambda>rq. FetchRejects JUndefined) True init_state)))
   \<and> gate_of (onError (fst (update_check \<lparr>RELEASE_TAG = JUndefined, MV_CLIENT_SECRET = JUndefined\<rparr>
                      (\<lambda>rq. FetchRejects JUndefined) True init_state))) = NOT_REQUIRED
   \<and> \<not> webview_mounted (onError (fst (update_check \<lparr>RELEASE_TAG = JUndefined, MV_CLIENT_SECRET = JUndefined\<rparr>
                      (\<lambda>rq. FetchRejects JUndefined) True init_state)))"
proof -
  let ?cfg = "\<lparr>RELEASE_TAG = JUndefined, MV_CLIENT_SECRET = JUndefined\<rparr>"
  let ?s1 = "fst (update_check ?cfg (\<lambda>rq. FetchRejects JUndefined) True init_state)"
  have s1: "?s1 = init_state\<lparr>checkingUpdate := False\<rparr>"
    by (simp add: update_check_def localReleaseTag_def init_state_def)
  have "reachable ?cfg ?s1"
    by (rule r_check [OF r_init]) (simp add: init_state_def)
  moreover have "webview_mounted ?s1"
    unfolding s1 by (simp add: webview_mounted_def init_state_def)
  ultimately have "reachable ?cfg (onError ?s1)" by (rule r_error)
  then show ?thesis
    unfolding s1 by (simp add: onError_def gate_of_def webview_mounted_def init_state_def)
qed

section \<open>The navigation policy\<close>




text \<open>
  C5. A request whose URL begins with \<^verbatim>\<open>mailto:\<close>, \<^verbatim>\<open>tel:\<close> or \<^verbatim>\<open>sms:\<close> is vetoed
  whatever its \<^verbatim>\<open>isTopFrame\<close> field holds, with exactly one call of \<^verbatim>\<open>openExternal\<close>, on
  that URL; the navigation-completed listener makes exactly one such call as well.
\<close>

theorem contact_schemes_dispatch_once:
  assumes "js_get req ''url'' = JStr url"
    and "startsWith url ''mailto:'' \<or> startsWith url ''tel:'' \<or> startsWith url ''sms:''"
  shows "onShouldStartLoadWithRequest parse req = (False, [url])
       \<and> onNavigationStateChange req = [url]"
proof -
  have "url \<noteq> []" using assms(2) by (auto dest!: startsWith_hd)
  then show ?thesis
    using assms(2)
    by (auto simp: onShouldStartLoadWithRequest_def onNavigationStateChange_def
        req_url_eq [OF assms(1)] Let_def)
qed

text \<open>
  C5 at a \<^verbatim>\<open>mailto:\<close> link in a sub-frame, a top-level \<^verbatim>\<open>tel:\<close> link and a completed
  \<^verbatim>\<open>sms:\<close> navigation.
\<close>

theorem contact_schemes_dispatch_once_witness:
  "onShouldStartLoadWithRequest example_parse
      (JObj [(''url'', JStr ''mailto:someone@example.com''), (''isTopFrame'', JBool False)])
     = (False, [''mailto:someone@example.com''])
   \<and> onShouldStartLoadWithRequest example_parse
      (JObj [(''url'', JStr ''tel:+123456''), (''isTopFrame'', JBool True)])
     = (False, [''tel:+123456''])
   \<and> onNavigationStateChange (JObj [(''url'', JStr ''sms:+123456'')]) = [''sms:+123456'']"
proof -
  have a: "onShouldStartLoadWithRequest example_parse
      (JObj [(''url'', JStr ''mailto:someone@example.com''), (''isTopFrame'', JBool False)])
     = (False, [''mailto:someone@example.com''])"
    using contact_schemes_dispatch_once [where req = "JObj [(''url'', JStr ''mailto:someone@example.com''),
                                 (''isTopFrame'', JBool False)]"
        and url = "''mailto:someone@example.com''" and parse = example_parse]
    by (simp add: startsWith_def)
  have b: "onShouldStartLoadWithRequest example_parse
      (JObj [(''url'', JStr ''tel:+123456''), (''isTopFrame'', JBool True)])
     = (False, [''tel:+123456''])"
    using contact_schemes_dispatch_once [where req = "JObj [(''url'', JStr ''tel:+123456''), (''isTopFrame'', JBool True)]"
        and url = "''tel:+123456''" and parse = example_parse]
    by (simp add: startsWith_def)
  have c: "onNavigationStateChange (JObj [(''url'', JStr ''sms:+123456'')]) = [''sms:+123456'']"
    using contact_schemes_dispatch_once [where req = "JObj [(''url'', JStr ''sms:+123456'')]"
        and url = "''sms:+123456''" and parse = example_parse]
    by (simp add: startsWith_def)
  from a b c show ?thesis by simp
qed




text \<open>
  C10. A request whose \<^verbatim>\<open>isTopFrame\<close> field is absent or not a boolean gets the decision
  of the same request marked top-level; in particular an \<^verbatim>\<open>http(s)\<close> URL on the partner
  host outside its embeddable path, or on an external host, is vetoed and dispatched.
\<close>

theorem isTopFrame_defaults_to_top:
  assumes "\<forall>b. js_get req ''isTopFrame'' \<noteq> JBool b"
    and "js_get req_top ''url'' = js_get req ''url''"
    and "js_get req_top ''isTopFrame'' = JBool True"
  shows "onShouldStartLoadWithRequest parse req = onShouldStartLoadWithRequest parse req_top
       \<and> ((startsWith (req_url req) ''http://'' \<or> startsWith (req_url req) ''https://'')
            \<and> (partner_page parse (req_url req) \<or> isExternalToBase parse (req_url req)) \<longrightarrow>
          onShouldStartLoadWithRequest parse req = (False, [req_url req]))"
proof -
  have t: "req_isTopFrame req"
    using assms(1) by (cases "js_get req ''isTopFrame''") (auto simp: req_isTopFrame_def)
  have t': "req_isTopFrame req_top" using assms(3) by (simp add: req_isTopFrame_def)
  have u: "req_url req_top = req_url req" using assms(2) by (simp add: req_url_def)
  have 1: "onShouldStartLoadWithRequest parse req = onShouldStartLoadWithRequest parse req_top"
    by (simp add: onShouldStartLoadWithRequest_def Let_def t t' u)
  have 2: "(startsWith (req_url req) ''http://'' \<or> startsWith (req_url req) ''https://'')
            \<and> (partner_page parse (req_url req) \<or> isExternalToBase parse (req_url req)) \<longrightarrow>
          onShouldStartLoadWithRequest parse req = (False, [req_url req])"
  proof
    assume a: "(startsWith (req_url req) ''http://'' \<or> startsWith (req_url req) ''https://'')
            \<and> (partner_page parse (req_url req) \<or> isExternalToBase parse (req_url req))"
    then have w: "startsWith (req_url req) ''http://'' \<or> startsWith (req_url req) ''https://''"
      by simp
    show "onShouldStartLoadWithRequest parse req = (False, [req_url req])"
      using web_url_schemes [OF w] a t
      by (auto simp: onShouldStartLoadWithRequest_def Let_def)
  qed
  from 1 2 show ?thesis by simp
qed

text \<open>
  C10 at a request for \<^verbatim>\<open>https://example.com/\<close> that has no \<^verbatim>\<open>isTopFrame\<close> field.
\<close>

theorem isTopFrame_defaults_to_top_witness:
  "(\<forall>b. js_get (JObj [(''url'', JStr ''https://example.com/'')]) ''isTopFrame'' \<noteq> JBool b)
   \<and> onShouldStartLoadWithRequest example_parse (JObj [(''url'', JStr ''https://example.com/'')])
     = onShouldStartLoadWithRequest example_parse
         (JObj [(''url'', JStr ''https://example.com/''), (''isTopFrame'', JBool True)])
   \<and> onShouldStartLoadWithRequest example_parse (JObj [(''url'', JStr ''https://example.com/'')])
     = (False, [''https://example.com/''])"
proof -
  let ?req = "JObj [(''url'', JStr ''https://example.com/'')]"
  let ?top = "JObj [(''url'', JStr ''https://example.com/''), (''isTopFrame'', JBool True)]"
  have h: "\<forall>b. js_get ?req ''isTopFrame'' \<noteq> JBool b" by simp
  have u: "req_url ?req = ''https://example.com/''" by (simp add: req_url_def)
  have x: "isExternalToBase example_parse ''https://example.com/''" by code_simp
  have h2: "js_get ?top ''url'' = js_get ?req ''url''" by simp
  have h3: "js_get ?top ''isTopFrame'' = JBool True" by simp
  note r = isTopFrame_defaults_to_top [OF h h2 h3, of example_parse]
  have c: "onShouldStartLoadWithRequest example_parse ?req
          = onShouldStartLoadWithRequest example_parse ?top"
    using r by (rule conjunct1)
  have d: "onShouldStartLoadWithRequest example_parse ?req = (False, [''https://example.com/''])"
    using r [THEN conjunct2] u x by (simp add: startsWith_def)
  from h c d show ?thesis by blast
qed

end
